theory Spec2Isabelle
  imports Complex_Main
begin

section \<open>The word-memory game: data model\<close>

text \<open>
  The engine of \<^verbatim>\<open>src/game/game.js\<close> is a class whose methods run to completion on the
  single JavaScript thread; everything asynchronous (the 100 ms interval of the countdown,
  the 500 ms pause before the next word, the two promises of the mock API) comes back
  later as a callback. The model is a record of the engine together with the part of the
  JavaScript heap and of the task queue it uses, one function per method, and an event
  type with one constructor per way the program can be entered.

  Numbers are exact rationals: every double is one, and the rounding of the few
  floating-point operations of the source (\<^verbatim>\<open>5.0 - difficulty * 3.0\<close>,
  \<^verbatim>\<open>timerValue * 1000\<close>, \<^verbatim>\<open>/ 1000\<close>) is not represented.
\<close>

text \<open>A slot that holds a JavaScript string, or \<^verbatim>\<open>undefined\<close> after a read out of range.\<close>

datatype jsword = Undefined | Word string

text \<open>The object \<^verbatim>\<open>{word, difficulty, time_limit}\<close> the supplier resolves with.\<close>

record word_data =
  word :: jsword
  difficulty :: rat
  time_limit :: rat

text \<open>The three strings \<^verbatim>\<open>gameState\<close> is ever assigned.\<close>

datatype phase = MENU | PLAYING | GAME_OVER

type_synonym addr = nat

text \<open>
  \<^verbatim>\<open>this.state\<close>. The fields \<open>seenWords\<close> and \<open>currentWordData\<close> hold references: the
  array and the object live in the heap, and copying the record copies the references.
\<close>

record game_state =
  authToken :: "string option"
  gameState :: phase
  gameMode :: string
  currentScore :: int
  lives :: int
  seenWords :: addr
  currentWordData :: addr
  timerValue :: rat

text \<open>One constructor per \<^verbatim>\<open>console.log\<close> call of the source, with the interpolated values.\<close>

datatype log_line =
    LogScoreSaved | LogScore int | LogMode string
  | LogAlreadyInProgress | LogGameStarted
  | LogNewWord | LogWord jsword | LogDifficulty rat | LogTimeLimit rat | LogScoreLives int int
  | LogTimesUp
  | LogNoGame | LogAlreadyProcessing | LogAnsweredSeen | LogAnsweredNew
  | LogCorrect | LogWrong | LogLivesRemaining int
  | LogGameOver | LogFinalScore int | LogStartNewGame
  | LogInvalidMode | LogCannotChangeMode | LogModeSet string

text \<open>
  The engine and its surroundings.
  \<^item> \<open>timerInterval\<close> is \<open>None\<close> for \<^verbatim>\<open>null\<close>, and otherwise the \<^verbatim>\<open>startTime\<close> and
    \<^verbatim>\<open>duration\<close> captured by the closure of the running interval;
  \<^item> \<open>arrays\<close> and \<open>objects\<close> are the heap, \<open>nextAddr\<close> the next unused address;
  \<^item> \<open>fetchTimeouts\<close> counts the pending \<^verbatim>\<open>setTimeout(() => this.fetchNextWord(), 500)\<close>,
    \<open>wordRequests\<close> the \<^verbatim>\<open>getNextWord\<close> promises not yet resolved, and \<open>scoreSaves\<close> lists
    the arguments of the \<^verbatim>\<open>saveScore\<close> calls not yet resolved, oldest first.
\<close>

record engine =
  state :: game_state
  timerInterval :: "(int \<times> rat) option"
  isProcessingAnswer :: bool
  arrays :: "addr \<Rightarrow> jsword list"
  objects :: "addr \<Rightarrow> word_data"
  nextAddr :: addr
  console :: "log_line list"
  fetchTimeouts :: nat
  wordRequests :: nat
  scoreSaves :: "(int \<times> string) list"

text \<open>The array behind \<^verbatim>\<open>this.state.seenWords\<close> and the word of \<^verbatim>\<open>this.state.currentWordData\<close>.\<close>

definition seen :: "engine \<Rightarrow> jsword list" where
  "seen e = arrays e (seenWords (state e))"

definition current :: "engine \<Rightarrow> word_data" where
  "current e = objects e (currentWordData (state e))"

text \<open>The constructor of \<^verbatim>\<open>GameEngine\<close>.\<close>

definition init :: engine where
  "init =
     \<lparr> state =
         \<lparr> authToken = None, gameState = MENU, gameMode = ''medium'', currentScore = 0,
           lives = 3, seenWords = 0, currentWordData = 1, timerValue = 0 \<rparr>,
       timerInterval = None,
       isProcessingAnswer = False,
       arrays = (\<lambda>_. []),
       objects = (\<lambda>_. \<lparr> word = Word [], difficulty = 1 / 2, time_limit = 0 \<rparr>),
       nextAddr = 2,
       console = [],
       fetchTimeouts = 0,
       wordRequests = 0,
       scoreSaves = [] \<rparr>"

section \<open>Numbers\<close>

text \<open>
  \<^verbatim>\<open>parseFloat(x.toFixed(k))\<close>: the decimal with \<open>k\<close> digits nearest to \<open>x\<close>, the larger
  one in magnitude of two equally near.
\<close>

definition toFixed :: "nat \<Rightarrow> rat \<Rightarrow> rat" where
  "toFixed k x =
     (if x < 0 then - (of_int \<lfloor>- x * 10 ^ k + 1 / 2\<rfloor> / 10 ^ k)
      else of_int \<lfloor>x * 10 ^ k + 1 / 2\<rfloor> / 10 ^ k)"

section \<open>The mock supplier\<close>

definition wordBank :: "jsword list" where
  "wordBank = map Word
     [''apple'', ''logic'', ''memory'', ''system'', ''neural'', ''compute'', ''vector'',
      ''matrix'', ''binary'', ''cache'', ''thread'', ''kernel'', ''buffer'', ''pipeline'',
      ''latency'', ''runtime'', ''compile'', ''debug'', ''syntax'', ''parser'', ''lexer'',
      ''token'', ''stack'', ''heap'', ''queue'', ''graph'', ''tree'', ''node'', ''edge'',
      ''vertex'', ''algorithm'', ''function'', ''variable'', ''object'', ''array'',
      ''string'']"

text \<open>\<^verbatim>\<open>xs[k]\<close> for an integer \<open>k\<close>: \<^verbatim>\<open>undefined\<close> out of range.\<close>

definition js_index :: "jsword list \<Rightarrow> int \<Rightarrow> jsword" where
  "js_index xs k = (if 0 \<le> k \<and> k < int (length xs) then xs ! nat k else Undefined)"

text \<open>
  \<^verbatim>\<open>Math.floor(Math.random() * n)\<close> for the value \<open>r\<close> that \<^verbatim>\<open>Math.random()\<close> returned.
\<close>

definition random_index :: "rat \<Rightarrow> nat \<Rightarrow> int" where
  "random_index r n = \<lfloor>r * of_nat n\<rfloor>"

text \<open>
  The \<^verbatim>\<open>do ... while\<close> loop of \<^verbatim>\<open>getNextWord\<close>. The successive results of
  \<^verbatim>\<open>Math.random()\<close> are \<open>rnd 0\<close>, \<open>rnd 1\<close>, ...; \<open>i\<close> is the number of results consumed so
  far. The loop returns the word it drew last, the value of \<^verbatim>\<open>attempts\<close> and the new \<open>i\<close>.
\<close>

function draw_novel :: "(nat \<Rightarrow> rat) \<Rightarrow> nat \<Rightarrow> jsword list \<Rightarrow> nat \<Rightarrow> jsword \<times> nat \<times> nat" where
  "draw_novel rnd i seen_words attempts =
     (let w = js_index wordBank (random_index (rnd i) (length wordBank));
          attempts' = attempts + 1
      in if w \<in> set seen_words \<and> attempts' < 50
         then draw_novel rnd (Suc i) seen_words attempts'
         else (w, attempts', Suc i))"
  by pat_completeness auto
termination
  by (relation "measure (\<lambda>(rnd, i, seen_words, attempts). 50 - attempts)") auto

declare draw_novel.simps [simp del]

text \<open>
  The callback of \<^verbatim>\<open>getNextWord\<close>, for the array \<open>seen_words\<close> as it is when the callback
  runs. \<^verbatim>\<open>Math.random()\<close> is first called for \<^verbatim>\<open>shouldRepeat\<close>, and only when the array
  is not empty (\<^verbatim>\<open>&&\<close> does not evaluate its right side otherwise).
\<close>

definition getNextWord :: "(nat \<Rightarrow> rat) \<Rightarrow> jsword list \<Rightarrow> word_data" where
  "getNextWord rnd seen_words =
     (let shouldRepeat = (length seen_words > 0 \<and> rnd 0 < 35 / 100);
          i1 = (if length seen_words > 0 then 1 else 0);
          (w, i2) =
            (if shouldRepeat
             then (js_index seen_words (random_index (rnd i1) (length seen_words)), Suc i1)
             else (let (w', attempts, i) = draw_novel rnd i1 seen_words 0 in (w', i)));
          d = rnd i2;
          t = 5 - d * 3
      in \<lparr> word = w, difficulty = toFixed 2 d, time_limit = toFixed 1 t \<rparr>)"

section \<open>The engine\<close>

definition console_log :: "log_line \<Rightarrow> engine \<Rightarrow> engine" where
  "console_log l e = console_update (\<lambda>c. c @ [l]) e"

text \<open>The state an operation leaves: the last of the states its statements went through.\<close>

definition result_of :: "engine \<Rightarrow> engine list \<Rightarrow> engine" where
  "result_of e steps = last (e # steps)"

definition stopTimer :: "engine \<Rightarrow> engine" where
  "stopTimer e = (if timerInterval e \<noteq> None then timerInterval_update (\<lambda>_. None) e else e)"

text \<open>
  \<^verbatim>\<open>fetchNextWord\<close> up to its \<^verbatim>\<open>await\<close>: the check of the phase and the call of the
  supplier, which leaves a promise to be resolved.
\<close>

definition fetchNextWord :: "engine \<Rightarrow> engine" where
  "fetchNextWord e =
     (if gameState (state e) \<noteq> PLAYING then e else wordRequests_update Suc e)"

definition startTimer :: "int \<Rightarrow> engine \<Rightarrow> engine" where
  "startTimer now e =
     (let e1 = stopTimer e;
          startTime = now;
          duration = timerValue (state e1) * 1000
      in timerInterval_update (\<lambda>_. Some (startTime, duration)) e1)"

text \<open>
  \<^verbatim>\<open>fetchNextWord\<close> after its \<^verbatim>\<open>await\<close>, resumed with the object \<open>wordData\<close> the supplier
  resolved with; \<open>now\<close> is what \<^verbatim>\<open>Date.now()\<close> returns in \<^verbatim>\<open>startTimer\<close>. The phase is
  not checked again here.
\<close>

definition fetchNextWord_resume :: "word_data \<Rightarrow> int \<Rightarrow> engine \<Rightarrow> engine" where
  "fetchNextWord_resume wordData now e =
     (let a = nextAddr e;
          e0 = nextAddr_update Suc (objects_update (\<lambda>h. h(a := wordData)) e);
          e1 = state_update (currentWordData_update (\<lambda>_. a)) e0;
          e2 = state_update (timerValue_update (\<lambda>_. time_limit (objects e1 a))) e1;
          e3 = console_log LogNewWord e2;
          e4 = console_log (LogWord (word (objects e3 a))) e3;
          e5 = console_log (LogDifficulty (difficulty (objects e4 a))) e4;
          e6 = console_log (LogTimeLimit (time_limit (objects e5 a))) e5;
          e7 = console_log (LogScoreLives (currentScore (state e6)) (lives (state e6))) e6
      in startTimer now e7)"

text \<open>
  \<^verbatim>\<open>startGame\<close>; \<^verbatim>\<open>this.state.seenWords = []\<close> puts a new array into the heap and its
  reference into the state.
\<close>

definition startGame :: "engine \<Rightarrow> engine" where
  "startGame e =
     (if gameState (state e) = PLAYING then console_log LogAlreadyInProgress e
      else
        (let e1 = console_log LogGameStarted e;
             e2 = console_log (LogMode (gameMode (state e1))) e1;
             e3 = state_update (gameState_update (\<lambda>_. PLAYING)) e2;
             e4 = state_update (currentScore_update (\<lambda>_. 0)) e3;
             e5 = state_update (lives_update (\<lambda>_. 3)) e4;
             a = nextAddr e5;
             e6 = state_update (seenWords_update (\<lambda>_. a))
                    (nextAddr_update Suc (arrays_update (\<lambda>h. h(a := [])) e5))
         in fetchNextWord e6))"

text \<open>\<^verbatim>\<open>this.state.seenWords.push(this.state.currentWordData.word)\<close>: the array is changed in place.\<close>

definition push_current :: "engine \<Rightarrow> engine" where
  "push_current e =
     arrays_update (\<lambda>h. h(seenWords (state e) := h (seenWords (state e)) @ [word (current e)])) e"

text \<open>
  \<^verbatim>\<open>gameOver\<close> up to its \<^verbatim>\<open>await\<close>, statement by statement; the last one is the call of
  \<^verbatim>\<open>saveScore\<close>.
\<close>

definition gameOver_steps :: "engine \<Rightarrow> engine list" where
  "gameOver_steps e =
     (let e1 = stopTimer e;
          e2 = state_update (gameState_update (\<lambda>_. GAME_OVER)) e1;
          e3 = console_log LogGameOver e2;
          e4 = console_log (LogFinalScore (currentScore (state e3))) e3;
          e5 = console_log (LogMode (gameMode (state e4))) e4;
          e6 = scoreSaves_update (\<lambda>q. q @ [(currentScore (state e5), gameMode (state e5))]) e5
      in [e1, e2, e3, e4, e5, e6])"

text \<open>The callback of \<^verbatim>\<open>saveScore\<close>, and \<^verbatim>\<open>gameOver\<close> after its \<^verbatim>\<open>await\<close>.\<close>

definition saveScore_callback :: "int \<Rightarrow> string \<Rightarrow> engine \<Rightarrow> engine" where
  "saveScore_callback score mode e =
     console_log (LogMode mode) (console_log (LogScore score) (console_log LogScoreSaved e))"

definition gameOver_resume :: "engine \<Rightarrow> engine" where
  "gameOver_resume e = isProcessingAnswer_update (\<lambda>_. False) (console_log LogStartNewGame e)"

text \<open>\<^verbatim>\<open>handleCorrectAnswer\<close>, statement by statement.\<close>

definition handleCorrectAnswer_steps :: "engine \<Rightarrow> engine list" where
  "handleCorrectAnswer_steps e =
     (let e1 = console_log LogCorrect e;
          e2 = state_update (currentScore_update (\<lambda>n. n + 1)) e1;
          e3 = console_log (LogScore (currentScore (state e2))) e2;
          e4 = push_current e3;
          e5 = isProcessingAnswer_update (\<lambda>_. False) e4;
          e6 = fetchTimeouts_update Suc e5
      in [e1, e2, e3, e4, e5, e6])"

text \<open>\<^verbatim>\<open>handleWrongAnswer\<close>, statement by statement.\<close>

definition handleWrongAnswer_steps :: "engine \<Rightarrow> engine list" where
  "handleWrongAnswer_steps e =
     (let e1 = console_log LogWrong e;
          e2 = state_update (lives_update (\<lambda>n. n - 1)) e1;
          e3 = console_log (LogLivesRemaining (lives (state e2))) e2;
          e4 = push_current e3
      in [e1, e2, e3, e4] @
         (if lives (state e4) \<le> 0 then gameOver_steps e4
          else
            (let e5 = isProcessingAnswer_update (\<lambda>_. False) e4;
                 e6 = fetchTimeouts_update Suc e5
             in [e5, e6])))"

text \<open>\<^verbatim>\<open>handleTimerExpiry\<close>, statement by statement: no statement when the guard is set.\<close>

definition handleTimerExpiry_steps :: "engine \<Rightarrow> engine list" where
  "handleTimerExpiry_steps e =
     (if isProcessingAnswer e then []
      else
        (let e1 = stopTimer e;
             e2 = console_log LogTimesUp e1
         in [e1, e2] @ handleWrongAnswer_steps e2))"

definition handleTimerExpiry :: "engine \<Rightarrow> engine" where
  "handleTimerExpiry e = result_of e (handleTimerExpiry_steps e)"

text \<open>
  The callback of the interval \<^verbatim>\<open>startTimer\<close> installs, with the \<open>startTime\<close> and
  \<open>duration\<close> of its closure; \<open>now\<close> is what \<^verbatim>\<open>Date.now()\<close> returns.
\<close>

definition interval_callback :: "int \<Rightarrow> int \<Rightarrow> rat \<Rightarrow> engine \<Rightarrow> engine" where
  "interval_callback now startTime duration e =
     (let elapsed = now - startTime;
          remaining = max 0 (duration - of_int elapsed) / 1000;
          e1 = state_update (timerValue_update (\<lambda>_. toFixed 1 remaining)) e
      in if remaining \<le> 0 then handleTimerExpiry e1 else e1)"

text \<open>\<^verbatim>\<open>answerSeen\<close> and \<^verbatim>\<open>answerNew\<close>, statement by statement.\<close>

definition answerSeen_steps :: "engine \<Rightarrow> engine list" where
  "answerSeen_steps e =
     (if gameState (state e) \<noteq> PLAYING then [console_log LogNoGame e]
      else if isProcessingAnswer e then [console_log LogAlreadyProcessing e]
      else
        (let e1 = isProcessingAnswer_update (\<lambda>_. True) e;
             e2 = stopTimer e1;
             isCorrect = (word (current e2) \<in> set (seen e2));
             e3 = console_log LogAnsweredSeen e2
         in [e1, e2, e3] @
            (if isCorrect then handleCorrectAnswer_steps e3 else handleWrongAnswer_steps e3)))"

definition answerNew_steps :: "engine \<Rightarrow> engine list" where
  "answerNew_steps e =
     (if gameState (state e) \<noteq> PLAYING then [console_log LogNoGame e]
      else if isProcessingAnswer e then [console_log LogAlreadyProcessing e]
      else
        (let e1 = isProcessingAnswer_update (\<lambda>_. True) e;
             e2 = stopTimer e1;
             isCorrect = (\<not> word (current e2) \<in> set (seen e2));
             e3 = console_log LogAnsweredNew e2
         in [e1, e2, e3] @
            (if isCorrect then handleCorrectAnswer_steps e3 else handleWrongAnswer_steps e3)))"

definition answerSeen :: "engine \<Rightarrow> engine" where
  "answerSeen e = result_of e (answerSeen_steps e)"

definition answerNew :: "engine \<Rightarrow> engine" where
  "answerNew e = result_of e (answerNew_steps e)"

text \<open>\<^verbatim>\<open>getState\<close>: the spread copies the fields of \<^verbatim>\<open>this.state\<close>, references included.\<close>

definition getState :: "engine \<Rightarrow> game_state" where
  "getState e = state e"

definition setMode :: "string \<Rightarrow> engine \<Rightarrow> engine" where
  "setMode mode e =
     (if \<not> mode \<in> set [''easy'', ''medium'', ''hard''] then console_log LogInvalidMode e
      else if gameState (state e) = PLAYING then console_log LogCannotChangeMode e
      else console_log (LogModeSet mode) (state_update (gameMode_update (\<lambda>_. mode)) e))"

section \<open>Runs\<close>

text \<open>
  The ways into the program: the four methods a caller invokes, and the four callbacks.
  A callback can only run when it is pending: the 500 ms timeout when one was set, the
  continuation of \<^verbatim>\<open>fetchNextWord\<close> when a request is out (it gets the supplier's result,
  which the engine does not look into, and the time), the interval's callback while the
  interval is installed (it gets the time), the continuation of \<^verbatim>\<open>gameOver\<close> when a
  \<^verbatim>\<open>saveScore\<close> is out. \<open>fire\<close> is \<open>None\<close> for a callback that is not pending.

  The delays themselves are not part of the model: pending callbacks may run in any
  order. Every execution of the program is a run of the model, so what holds for all runs
  holds for the program; a particular run is an execution only if its order respects the
  delays (100 ms for the two promises and between ticks, 500 ms before the next word).
\<close>

datatype event =
    StartGame | AnswerSeen | AnswerNew | SetMode string
  | FetchTimeout | WordArrives word_data int | Tick int | ScoreSaved

fun fire :: "event \<Rightarrow> engine \<Rightarrow> engine option" where
  "fire StartGame e = Some (startGame e)"
| "fire AnswerSeen e = Some (answerSeen e)"
| "fire AnswerNew e = Some (answerNew e)"
| "fire (SetMode mode) e = Some (setMode mode e)"
| "fire FetchTimeout e =
     (if fetchTimeouts e = 0 then None
      else Some (fetchNextWord (fetchTimeouts_update (\<lambda>n. n - 1) e)))"
| "fire (WordArrives wordData now) e =
     (if wordRequests e = 0 then None
      else Some (fetchNextWord_resume wordData now (wordRequests_update (\<lambda>n. n - 1) e)))"
| "fire (Tick now) e =
     (case timerInterval e of
        None \<Rightarrow> None
      | Some (startTime, duration) \<Rightarrow> Some (interval_callback now startTime duration e))"
| "fire ScoreSaved e =
     (case scoreSaves e of
        [] \<Rightarrow> None
      | (score, mode) # rest \<Rightarrow>
          Some (gameOver_resume (saveScore_callback score mode (scoreSaves_update (\<lambda>_. rest) e))))"

fun run :: "event list \<Rightarrow> engine \<Rightarrow> engine option" where
  "run [] e = Some e"
| "run (ev # evs) e = (case fire ev e of None \<Rightarrow> None | Some e' \<Rightarrow> run evs e')"

section \<open>Notions the properties are stated with\<close>

text \<open>
  An answer is resolved as correct when the engine evaluates it (the phase is PLAYING and
  the guard is not set) and the claim agrees with the membership of the current word in
  the seen words. A round starts when \<^verbatim>\<open>startGame\<close> is called outside PLAYING.
\<close>

definition resolves_correct :: "event \<Rightarrow> engine \<Rightarrow> bool" where
  "resolves_correct ev e =
     (gameState (state e) = PLAYING \<and> \<not> isProcessingAnswer e \<and>
      (if ev = AnswerSeen then word (current e) \<in> set (seen e)
       else if ev = AnswerNew then \<not> word (current e) \<in> set (seen e)
       else False))"

definition starts_round :: "event \<Rightarrow> engine \<Rightarrow> bool" where
  "starts_round ev e = (ev = StartGame \<and> gameState (state e) \<noteq> PLAYING)"

text \<open>
  The number of answers resolved as correct since the last start of a round, along the
  run of \<open>evs\<close> from \<open>e\<close>; \<open>n\<close> is the number before the run.
\<close>

fun correct_since_start :: "event list \<Rightarrow> engine \<Rightarrow> int \<Rightarrow> int" where
  "correct_since_start [] e n = n"
| "correct_since_start (ev # evs) e n =
     (case fire ev e of
        None \<Rightarrow> n
      | Some e' \<Rightarrow>
          correct_since_start evs e'
            (if starts_round ev e then 0 else if resolves_correct ev e then n + 1 else n))"

text \<open>
  What a caller that holds the object \<^verbatim>\<open>s\<close> returned by \<^verbatim>\<open>getState\<close> does to the heap
  with \<^verbatim>\<open>s.seenWords.push(w)\<close> and with \<^verbatim>\<open>s.currentWordData.word = w\<close>.
\<close>

definition caller_push :: "game_state \<Rightarrow> jsword \<Rightarrow> engine \<Rightarrow> engine" where
  "caller_push s w e = arrays_update (\<lambda>h. h(seenWords s := h (seenWords s) @ [w])) e"

definition caller_set_word :: "game_state \<Rightarrow> jsword \<Rightarrow> engine \<Rightarrow> engine" where
  "caller_set_word s w e =
     objects_update (\<lambda>h. h(currentWordData s := word_update (\<lambda>_. w) (h (currentWordData s)))) e"

text \<open>
  Two results of the mock supplier, and the engine after a first word has been presented:
  a new engine, \<^verbatim>\<open>startGame()\<close>, and the supplier's answer 100 ms later.
\<close>

definition apple :: word_data where
  "apple = getNextWord (\<lambda>_. 0) []"

definition syntax_word :: word_data where
  "syntax_word = getNextWord (\<lambda>_. 1 / 2) [Word [], Word [], Word [], Word []]"

definition presented :: engine where
  "presented = fetchNextWord_resume apple 100 (wordRequests_update (\<lambda>n. n - 1) (startGame init))"

text \<open>
  The scenario of the specification, after \<^verbatim>\<open>startGame()\<close>: a new word answered NEW,
  the same word again answered SEEN, another new word answered SEEN.
\<close>

definition scenario :: "event list" where
  "scenario =
     [WordArrives apple 100, AnswerNew, FetchTimeout,
      WordArrives \<lparr>word = Word ''apple'', difficulty = 67 / 100, time_limit = 3\<rparr> 1200,
      AnswerSeen, FetchTimeout,
      WordArrives \<lparr>word = Word ''logic'', difficulty = 1 / 2, time_limit = 7 / 2\<rparr> 2300,
      AnswerSeen]"

definition scenario_end :: engine where
  "scenario_end = the (run scenario (startGame init))"


text \<open>
  Runs of a new engine in which the player answers when no word is waiting for an answer:
  twice for the one word presented, and four times before the first word has arrived.
  The orders respect the delays. In the first two the second answer comes within the
  500 ms before the next word is asked for. In the third the four answers come within
  the 100 ms the supplier takes, so its result arrives before that of the \<^verbatim>\<open>saveScore\<close>
  called by the fourth; the countdown of 3500 ms installed at 100 ticks every 100 ms
  and runs out with the tick at 3600.
\<close>

definition answered_twice :: "event list" where
  "answered_twice = [StartGame, WordArrives apple 100, AnswerNew, AnswerSeen]"

definition appended_twice :: "event list" where
  "appended_twice = [StartGame, WordArrives apple 100, AnswerNew, AnswerNew]"

definition late_arrival :: "event list" where
  "late_arrival =
     [StartGame, AnswerNew, AnswerNew, AnswerNew, AnswerNew,
      WordArrives syntax_word 100, ScoreSaved] @
     map (\<lambda>k. Tick (100 + 100 * int k)) [1..<36]"

text \<open>
  The engine when the countdown of the first word runs out: the interval's callback has
  set \<^verbatim>\<open>timerValue\<close> to 0 and calls \<^verbatim>\<open>handleTimerExpiry\<close>.
\<close>

definition at_expiry :: engine where
  "at_expiry = state_update (timerValue_update (\<lambda>_. 0)) presented"

section \<open>Evaluation and frame lemmas\<close>

lemma floor_rat_numeral [simp]: "\<lfloor>numeral a / numeral b :: rat\<rfloor> = numeral a div numeral b"
  using floor_divide_of_int_eq [of "numeral a" "numeral b", where ?'a = rat] by simp

lemma floor_rat_one [simp]: "\<lfloor>1 / numeral b :: rat\<rfloor> = 1 div numeral b"
  using floor_divide_of_int_eq [of 1 "numeral b", where ?'a = rat] by simp

lemmas supplier_defs =
  getNextWord_def draw_novel.simps js_index_def random_index_def wordBank_def toFixed_def

lemma apple_eq: "apple = \<lparr>word = Word ''apple'', difficulty = 0, time_limit = 5\<rparr>"
  by (simp add: apple_def supplier_defs)

lemma syntax_word_eq: "syntax_word = \<lparr>word = Word ''syntax'', difficulty = 1 / 2, time_limit = 7 / 2\<rparr>"
  by (simp add: syntax_word_def supplier_defs)

lemmas engine_defs =
  console_log_def result_of_def stopTimer_def fetchNextWord_def startTimer_def
  fetchNextWord_resume_def startGame_def push_current_def gameOver_steps_def
  saveScore_callback_def gameOver_resume_def handleCorrectAnswer_steps_def
  handleWrongAnswer_steps_def handleTimerExpiry_steps_def handleTimerExpiry_def
  interval_callback_def answerSeen_steps_def answerNew_steps_def answerSeen_def
  answerNew_def getState_def setMode_def seen_def current_def

lemma presented_facts:
  "gameState (state presented) = PLAYING" "\<not> isProcessingAnswer presented"
  "seen presented = []" "word (current presented) = Word ''apple''"
  "currentScore (state presented) = 0" "lives (state presented) = 3"
  "timerInterval presented = Some (100, 5000)"
  by (simp_all add: presented_def apple_eq init_def engine_defs Let_def)



lemma result_of_simps [simp]:
  "result_of e [] = e" "result_of e (x # xs) = result_of x xs"
  by (simp_all add: result_of_def)

lemma result_of_append [simp]: "result_of e (xs @ ys) = result_of (result_of e xs) ys"
  by (induction xs arbitrary: e) simp_all

lemma stopTimer_simps [simp]:
  "timerInterval (stopTimer e) = None" "state (stopTimer e) = state e"
  "arrays (stopTimer e) = arrays e" "objects (stopTimer e) = objects e"
  "isProcessingAnswer (stopTimer e) = isProcessingAnswer e"
  "seen (stopTimer e) = seen e" "current (stopTimer e) = current e"
  by (cases "timerInterval e"; simp add: stopTimer_def seen_def current_def)+

lemma console_log_simps [simp]:
  "timerInterval (console_log l e) = timerInterval e" "state (console_log l e) = state e"
  "arrays (console_log l e) = arrays e" "objects (console_log l e) = objects e"
  "isProcessingAnswer (console_log l e) = isProcessingAnswer e"
  "seen (console_log l e) = seen e" "current (console_log l e) = current e"
  by (simp_all add: console_log_def seen_def current_def)

lemma push_current_simps [simp]:
  "timerInterval (push_current e) = timerInterval e" "state (push_current e) = state e"
  "isProcessingAnswer (push_current e) = isProcessingAnswer e"
  "seen (push_current e) = seen e @ [word (current e)]" "current (push_current e) = current e"
  by (simp_all add: push_current_def seen_def current_def)

lemma seen_current_frame [simp]:
  "seen (state_update (currentScore_update f) e) = seen e"
  "seen (state_update (lives_update g) e) = seen e"
  "seen (state_update (gameState_update p) e) = seen e"
  "seen (state_update (timerValue_update t) e) = seen e"
  "seen (state_update (gameMode_update m) e) = seen e"
  "seen (isProcessingAnswer_update b e) = seen e"
  "seen (fetchTimeouts_update k e) = seen e"
  "seen (wordRequests_update k e) = seen e"
  "seen (scoreSaves_update q e) = seen e"
  "seen (timerInterval_update ti e) = seen e"
  "current (state_update (currentScore_update f) e) = current e"
  "current (state_update (lives_update g) e) = current e"
  "current (state_update (gameState_update p) e) = current e"
  "current (state_update (timerValue_update t) e) = current e"
  "current (state_update (gameMode_update m) e) = current e"
  "current (isProcessingAnswer_update b e) = current e"
  "current (fetchTimeouts_update k e) = current e"
  "current (wordRequests_update k e) = current e"
  "current (scoreSaves_update q e) = current e"
  "current (timerInterval_update ti e) = current e"
  by (simp_all add: seen_def current_def)

lemma correct_result:
  "currentScore (state (result_of e0 (handleCorrectAnswer_steps e))) = currentScore (state e) + 1"
  "lives (state (result_of e0 (handleCorrectAnswer_steps e))) = lives (state e)"
  "gameState (state (result_of e0 (handleCorrectAnswer_steps e))) = gameState (state e)"
  "seen (result_of e0 (handleCorrectAnswer_steps e)) = seen e @ [word (current e)]"
  "timerInterval (result_of e0 (handleCorrectAnswer_steps e)) = timerInterval e"
  "isProcessingAnswer (result_of e0 (handleCorrectAnswer_steps e)) = False"
  by (simp_all add: handleCorrectAnswer_steps_def Let_def)

lemma gameOver_result:
  "currentScore (state (result_of e0 (gameOver_steps e))) = currentScore (state e)"
  "lives (state (result_of e0 (gameOver_steps e))) = lives (state e)"
  "gameState (state (result_of e0 (gameOver_steps e))) = GAME_OVER"
  "seen (result_of e0 (gameOver_steps e)) = seen e"
  "timerInterval (result_of e0 (gameOver_steps e)) = None"
  "isProcessingAnswer (result_of e0 (gameOver_steps e)) = isProcessingAnswer e"
  by (simp_all add: gameOver_steps_def Let_def)

lemma wrong_result:
  "currentScore (state (result_of e0 (handleWrongAnswer_steps e))) = currentScore (state e)"
  "lives (state (result_of e0 (handleWrongAnswer_steps e))) = lives (state e) - 1"
  "gameState (state (result_of e0 (handleWrongAnswer_steps e))) =
     (if lives (state e) - 1 \<le> 0 then GAME_OVER else gameState (state e))"
  "seen (result_of e0 (handleWrongAnswer_steps e)) = seen e @ [word (current e)]"
  "timerInterval (result_of e0 (handleWrongAnswer_steps e)) =
     (if lives (state e) - 1 \<le> 0 then None else timerInterval e)"
  "isProcessingAnswer (result_of e0 (handleWrongAnswer_steps e)) =
     (if lives (state e) - 1 \<le> 0 then isProcessingAnswer e else False)"
  by (simp_all add: handleWrongAnswer_steps_def Let_def gameOver_result)

lemma answer_entry:
  "gameState (state e) = PLAYING \<Longrightarrow> \<not> isProcessingAnswer e \<Longrightarrow>
   answerSeen e =
     (if word (current e) \<in> set (seen e)
      then result_of (console_log LogAnsweredSeen (stopTimer (isProcessingAnswer_update (\<lambda>_. True) e)))
            (handleCorrectAnswer_steps
             (console_log LogAnsweredSeen (stopTimer (isProcessingAnswer_update (\<lambda>_. True) e))))
      else result_of (console_log LogAnsweredSeen (stopTimer (isProcessingAnswer_update (\<lambda>_. True) e)))
            (handleWrongAnswer_steps
             (console_log LogAnsweredSeen (stopTimer (isProcessingAnswer_update (\<lambda>_. True) e)))))"
  "gameState (state e) = PLAYING \<Longrightarrow> \<not> isProcessingAnswer e \<Longrightarrow>
   answerNew e =
     (if word (current e) \<in> set (seen e)
      then result_of (console_log LogAnsweredNew (stopTimer (isProcessingAnswer_update (\<lambda>_. True) e)))
            (handleWrongAnswer_steps
             (console_log LogAnsweredNew (stopTimer (isProcessingAnswer_update (\<lambda>_. True) e))))
      else result_of (console_log LogAnsweredNew (stopTimer (isProcessingAnswer_update (\<lambda>_. True) e)))
            (handleCorrectAnswer_steps
             (console_log LogAnsweredNew (stopTimer (isProcessingAnswer_update (\<lambda>_. True) e)))))"
  by (simp_all add: answerSeen_def answerSeen_steps_def answerNew_def answerNew_steps_def Let_def)

section \<open>Answer evaluation\<close>



section \<open>Operations in the wrong phase\<close>

text \<open>
  C9. An answer outside PLAYING, \<^verbatim>\<open>startGame\<close> during PLAYING, \<^verbatim>\<open>setMode\<close> during PLAYING
  and \<^verbatim>\<open>setMode\<close> with a mode other than easy, medium and hard each return normally,
  write one line to the console, and change nothing else: the resulting engine is the
  given one with that line added, so the state, the heap behind it, the timer and the
  pending callbacks are the same.
\<close>

theorem illegal_operation_only_reported:
  "(gameState (state e) \<noteq> PLAYING \<longrightarrow>
      answerSeen e = e\<lparr>console := console e @ [LogNoGame]\<rparr> \<and>
      answerNew e = e\<lparr>console := console e @ [LogNoGame]\<rparr>) \<and>
   (gameState (state e) = PLAYING \<longrightarrow>
      startGame e = e\<lparr>console := console e @ [LogAlreadyInProgress]\<rparr> \<and>
      (mode \<in> set [''easy'', ''medium'', ''hard''] \<longrightarrow>
         setMode mode e = e\<lparr>console := console e @ [LogCannotChangeMode]\<rparr>)) \<and>
   (mode \<notin> set [''easy'', ''medium'', ''hard''] \<longrightarrow>
      setMode mode e = e\<lparr>console := console e @ [LogInvalidMode]\<rparr>)"
  by (simp add: answerSeen_def answerSeen_steps_def answerNew_def answerNew_steps_def
      startGame_def setMode_def console_log_def)

theorem illegal_operation_only_reported_witness:
  "gameState (state init) \<noteq> PLAYING \<and>
   answerSeen init = init\<lparr>console := [LogNoGame]\<rparr> \<and>
   answerNew init = init\<lparr>console := [LogNoGame]\<rparr> \<and>
   ''extreme'' \<notin> set [''easy'', ''medium'', ''hard''] \<and>
   setMode ''extreme'' init = init\<lparr>console := [LogInvalidMode]\<rparr> \<and>
   gameState (state presented) = PLAYING \<and>
   ''hard'' \<in> set [''easy'', ''medium'', ''hard''] \<and>
   startGame presented = presented\<lparr>console := console presented @ [LogAlreadyInProgress]\<rparr> \<and>
   setMode ''hard'' presented = presented\<lparr>console := console presented @ [LogCannotChangeMode]\<rparr>"
  using illegal_operation_only_reported [of init "''extreme''"]
    illegal_operation_only_reported [of presented "''hard''"]
  by (simp add: presented_facts) (simp add: init_def)

section \<open>The score\<close>

lemma score_startGame:
  "currentScore (state (startGame e)) =
     (if gameState (state e) = PLAYING then currentScore (state e) else 0)"
  by (simp add: startGame_def fetchNextWord_def Let_def)

lemma startGame_resets:
  assumes "gameState (state e) \<noteq> PLAYING"
  shows "currentScore (state (startGame e)) = 0" "lives (state (startGame e)) = 3"
    "seen (startGame e) = []" "gameState (state (startGame e)) = PLAYING"
  using assms by (simp_all add: startGame_def fetchNextWord_def Let_def seen_def)

lemma score_answerSeen:
  "currentScore (state (answerSeen e)) =
     (if resolves_correct AnswerSeen e then currentScore (state e) + 1 else currentScore (state e))"
proof (cases "gameState (state e) = PLAYING \<and> \<not> isProcessingAnswer e")
  case True
  then show ?thesis by (simp add: answer_entry correct_result wrong_result resolves_correct_def)
next
  case False
  then show ?thesis
    by (auto simp add: answerSeen_def answerSeen_steps_def resolves_correct_def)
qed

lemma score_answerNew:
  "currentScore (state (answerNew e)) =
     (if resolves_correct AnswerNew e then currentScore (state e) + 1 else currentScore (state e))"
proof (cases "gameState (state e) = PLAYING \<and> \<not> isProcessingAnswer e")
  case True
  then show ?thesis by (simp add: answer_entry correct_result wrong_result resolves_correct_def)
next
  case False
  then show ?thesis
    by (auto simp add: answerNew_def answerNew_steps_def resolves_correct_def)
qed

lemma score_timeout:
  "currentScore (state (handleTimerExpiry e)) = currentScore (state e)"
  by (simp add: handleTimerExpiry_def handleTimerExpiry_steps_def Let_def wrong_result)

lemma score_interval:
  "currentScore (state (interval_callback now startTime duration e)) = currentScore (state e)"
  by (simp add: interval_callback_def Let_def score_timeout)

lemma score_others:
  "currentScore (state (setMode mode e)) = currentScore (state e)"
  "currentScore (state (fetchNextWord e)) = currentScore (state e)"
  "currentScore (state (fetchNextWord_resume wordData now e)) = currentScore (state e)"
  "currentScore (state (gameOver_resume e)) = currentScore (state e)"
  "currentScore (state (saveScore_callback score mode e)) = currentScore (state e)"
  by (simp_all add: setMode_def fetchNextWord_def fetchNextWord_resume_def startTimer_def
      gameOver_resume_def saveScore_callback_def Let_def)

lemma score_fire:
  assumes "fire ev e = Some e'"
  shows "currentScore (state e') =
           (if starts_round ev e then 0
            else if resolves_correct ev e then currentScore (state e) + 1
            else currentScore (state e))"
proof (cases ev)
  case StartGame
  with assms show ?thesis
    by (auto simp add: score_startGame starts_round_def resolves_correct_def)
next
  case AnswerSeen
  with assms show ?thesis by (auto simp add: score_answerSeen starts_round_def)
next
  case AnswerNew
  with assms show ?thesis by (auto simp add: score_answerNew starts_round_def)
next
  case (SetMode m)
  with assms show ?thesis by (auto simp add: score_others starts_round_def resolves_correct_def)
next
  case FetchTimeout
  with assms show ?thesis
    by (auto simp add: score_others starts_round_def resolves_correct_def split: if_splits)
next
  case (WordArrives wd now)
  with assms show ?thesis
    by (auto simp add: score_others starts_round_def resolves_correct_def split: if_splits)
next
  case (Tick now)
  with assms show ?thesis
    by (auto simp add: score_interval starts_round_def resolves_correct_def split: option.splits)
next
  case ScoreSaved
  with assms show ?thesis
    by (auto simp add: score_others starts_round_def resolves_correct_def split: list.splits)
qed

lemma score_run:
  assumes "run evs e = Some e'"
  shows "currentScore (state e') = correct_since_start evs e (currentScore (state e))"
  using assms
proof (induction evs arbitrary: e)
  case Nil
  then show ?case by simp
next
  case (Cons ev evs)
  then obtain e1 where f: "fire ev e = Some e1" and r: "run evs e1 = Some e'"
    by (auto split: option.splits)
  from Cons.IH [OF r] score_fire [OF f] f show ?case by simp
qed

lemma scenario_runs: "run scenario (startGame init) = Some scenario_end"
proof -
  have "run scenario (startGame init) \<noteq> None" by code_simp
  then show ?thesis by (auto simp add: scenario_end_def)
qed

lemma scenario_values:
  "correct_since_start scenario (startGame init) 0 = 2"
  "lives (state scenario_end) = 2"
  "seen scenario_end = [Word ''apple'', Word ''apple'', Word ''logic'']"
  unfolding scenario_end_def by code_simp+

text \<open>
  C6. \<^verbatim>\<open>startGame\<close> called outside PLAYING sets the score to 0, the lives to 3, the seen
  words to an empty array and the phase to PLAYING. In every state reached from there by
  any events, the score is the number of answers resolved as correct since the last start
  of a round: each such answer adds one, and no other event changes the score, an
  incorrect answer and a timeout in particular.
\<close>

theorem score_counts_correct_answers:
  assumes "gameState (state e) \<noteq> PLAYING" and "run evs (startGame e) = Some e'"
  shows "currentScore (state (startGame e)) = 0 \<and> lives (state (startGame e)) = 3 \<and>
         seen (startGame e) = [] \<and> gameState (state (startGame e)) = PLAYING \<and>
         currentScore (state e') = correct_since_start evs (startGame e) 0 \<and>
         currentScore (state (answerSeen s)) =
           (if resolves_correct AnswerSeen s then currentScore (state s) + 1
            else currentScore (state s)) \<and>
         currentScore (state (answerNew s)) =
           (if resolves_correct AnswerNew s then currentScore (state s) + 1
            else currentScore (state s)) \<and>
         currentScore (state (interval_callback now startTime duration s)) =
           currentScore (state s)"
  using score_run [OF assms(2)] startGame_resets [OF assms(1)]
  by (simp add: score_answerSeen score_answerNew score_interval)

theorem score_counts_correct_answers_witness:
  "gameState (state init) \<noteq> PLAYING \<and>
   run scenario (startGame init) = Some scenario_end \<and>
   currentScore (state scenario_end) = 2 \<and>
   correct_since_start scenario (startGame init) 0 = 2 \<and>
   lives (state scenario_end) = 2 \<and>
   seen scenario_end = [Word ''apple'', Word ''apple'', Word ''logic'']"
proof -
  have h: "gameState (state init) \<noteq> PLAYING" by (simp add: init_def)
  from score_counts_correct_answers [OF h scenario_runs]
  have "currentScore (state scenario_end) = correct_since_start scenario (startGame init) 0"
    by blast
  then show ?thesis using h scenario_runs scenario_values by simp
qed

section \<open>The countdown\<close>







section \<open>The supplier\<close>













section \<open>Resolutions per presented word\<close>

lemma presentation_keeps_seenWords:
  "seen (fetchNextWord e) = seen e" "seen (fetchNextWord_resume wordData now e) = seen e"
  by (simp_all add: fetchNextWord_def fetchNextWord_resume_def startTimer_def Let_def seen_def
      console_log_def stopTimer_def)

lemma no_tick_after_answer:
  assumes "gameState (state e) = PLAYING" and "\<not> isProcessingAnswer e"
  shows "fire (Tick now) (answerSeen e) = None" "fire (Tick now) (answerNew e) = None"
  using assms by (simp_all add: answer_entry correct_result wrong_result)

text \<open>
  C2. One word is presented and answered NEW, which is correct: the score is 1, the word is
  in the seen words, the countdown is removed and no request for a next word is out.
  A second answer, SEEN, given before the next word is presented is not ignored: it is
  judged against the same word, now seen, and the score becomes 2 and the word is
  appended again. (A countdown does not add to this: once an answer is evaluated the
  interval is removed, so its callback cannot run; this is \<open>no_tick_after_answer\<close>.)
\<close>

theorem second_answer_is_evaluated:
  "map_option
     (\<lambda>e. (currentScore (state e), seen e, word (current e), timerInterval e,
           isProcessingAnswer e, wordRequests e))
     (run (take 3 answered_twice) init) =
     Some (1, [Word ''apple''], Word ''apple'', None, False, 0) \<and>
   map_option
     (\<lambda>e. (currentScore (state e), seen e, word (current e), timerInterval e,
           isProcessingAnswer e, wordRequests e))
     (run answered_twice init) =
     Some (2, [Word ''apple'', Word ''apple''], Word ''apple'', None, False, 0)"
  unfolding answered_twice_def by code_simp

text \<open>
  C3. One word is presented once and answered twice before the next one arrives: it is
  appended to the seen words twice, and the second answer, NEW, costs a life because the
  first one has put the word into the array. (Presenting a word does not change the seen
  words, \<open>presentation_keeps_seenWords\<close>, and one resolution appends the word once.)
\<close>

theorem one_presentation_appended_twice:
  "map_option (\<lambda>e. (seen e, lives (state e), currentScore (state e))) (run appended_twice init) =
     Some ([Word ''apple'', Word ''apple''], 2, 1)"
  unfolding appended_twice_def by code_simp

section \<open>The lives\<close>

lemma lives_answer:
  "lives (state (answerSeen e)) \<le> lives (state e)" "lives (state (answerNew e)) \<le> lives (state e)"
proof -
  show "lives (state (answerSeen e)) \<le> lives (state e)"
  proof (cases "gameState (state e) = PLAYING \<and> \<not> isProcessingAnswer e")
    case True
    then show ?thesis by (simp add: answer_entry correct_result wrong_result)
  next
    case False
    then show ?thesis by (auto simp add: answerSeen_def answerSeen_steps_def)
  qed
  show "lives (state (answerNew e)) \<le> lives (state e)"
  proof (cases "gameState (state e) = PLAYING \<and> \<not> isProcessingAnswer e")
    case True
    then show ?thesis by (simp add: answer_entry correct_result wrong_result)
  next
    case False
    then show ?thesis by (auto simp add: answerNew_def answerNew_steps_def)
  qed
qed

lemma lives_others:
  "lives (state (startGame e)) \<le> max 3 (lives (state e))"
  "lives (state (setMode mode e)) = lives (state e)"
  "lives (state (fetchNextWord e)) = lives (state e)"
  "lives (state (fetchNextWord_resume wordData now e)) = lives (state e)"
  "lives (state (gameOver_resume e)) = lives (state e)"
  "lives (state (saveScore_callback score mode e)) = lives (state e)"
  "lives (state (interval_callback now startTime duration e)) \<le> lives (state e)"
  by (simp_all add: startGame_def setMode_def fetchNextWord_def fetchNextWord_resume_def
      startTimer_def gameOver_resume_def saveScore_callback_def interval_callback_def
      handleTimerExpiry_def handleTimerExpiry_steps_def wrong_result Let_def)

lemma lives_fire:
  assumes "fire ev e = Some e'" and "lives (state e) \<le> 3"
  shows "lives (state e') \<le> 3"
proof (cases ev)
  case StartGame
  with assms lives_others(1) [of e] show ?thesis by auto
next
  case AnswerSeen
  with assms lives_answer(1) [of e] show ?thesis by auto
next
  case AnswerNew
  with assms lives_answer(2) [of e] show ?thesis by auto
next
  case (SetMode m)
  with assms show ?thesis by (auto simp add: lives_others)
next
  case FetchTimeout
  with assms show ?thesis by (auto simp add: lives_others split: if_splits)
next
  case (WordArrives wd now)
  with assms show ?thesis by (auto simp add: lives_others split: if_splits)
next
  case (Tick now)
  from Tick assms obtain st d where "e' = interval_callback now st d e"
    by (auto split: option.splits)
  with assms(2) lives_others(7) [of now st d e] show ?thesis by simp
next
  case ScoreSaved
  with assms show ?thesis by (auto simp add: lives_others split: list.splits)
qed

lemma lives_at_most_three:
  assumes "run evs e = Some e'" and "lives (state e) \<le> 3"
  shows "lives (state e') \<le> 3"
  using assms
proof (induction evs arbitrary: e)
  case Nil
  then show ?case by simp
next
  case (Cons ev evs)
  then obtain e1 where f: "fire ev e = Some e1" and r: "run evs e1 = Some e'"
    by (auto split: option.splits)
  from Cons.IH [OF r lives_fire [OF f Cons.prems(2)]] show ?case .
qed

text \<open>
  C4. A round is started and four answers are given before the first word arrives; the
  last three are incorrect and end the round with no life left. The word then arrives,
  and \<^verbatim>\<open>fetchNextWord\<close>, which checked the phase before its \<^verbatim>\<open>await\<close> only, installs a
  countdown in the phase GAME_OVER. When that countdown runs out, a life is taken again:
  the lives are -1. (The upper bound holds in every run, \<open>lives_at_most_three\<close>.)
\<close>

theorem lives_become_negative:
  "map_option (\<lambda>e. (lives (state e), gameState (state e), timerInterval e))
     (run (take 5 late_arrival) init) = Some (0, GAME_OVER, None) \<and>
   map_option (\<lambda>e. (lives (state e), gameState (state e), timerInterval e))
     (run (take 7 late_arrival) init) = Some (0, GAME_OVER, Some (100, 3500)) \<and>
   map_option (\<lambda>e. (lives (state e), gameState (state e), timerInterval e))
     (run (butlast late_arrival) init) = Some (0, GAME_OVER, Some (100, 3500)) \<and>
   last late_arrival = Tick 3600 \<and>
   map_option (\<lambda>e. (lives (state e), gameState (state e), timerInterval e))
     (run late_arrival init) = Some (- 1, GAME_OVER, None)"
  unfolding late_arrival_def by code_simp

section \<open>The guard\<close>

lemma answer_holds_guard:
  assumes "gameState (state e) = PLAYING" and "\<not> isProcessingAnswer e"
  shows "list_all
           (\<lambda>s. isProcessingAnswer s \<or>
                (currentScore (state s) = currentScore (state (answerSeen e)) \<and>
                 lives (state s) = lives (state (answerSeen e)) \<and>
                 seen s = seen (answerSeen e)))
           (answerSeen_steps e)"
    and "list_all
           (\<lambda>s. isProcessingAnswer s \<or>
                (currentScore (state s) = currentScore (state (answerNew e)) \<and>
                 lives (state s) = lives (state (answerNew e)) \<and>
                 seen s = seen (answerNew e)))
           (answerNew_steps e)"
  using assms
  by (simp_all add: answer_entry correct_result wrong_result)
    (simp_all add: answerSeen_steps_def answerNew_steps_def handleCorrectAnswer_steps_def
      handleWrongAnswer_steps_def gameOver_steps_def Let_def)

lemma tick_at_expiry: "fire (Tick 5100) presented = Some (handleTimerExpiry at_expiry)"
proof -
  have "interval_callback 5100 100 5000 presented = handleTimerExpiry at_expiry"
    by (simp add: interval_callback_def Let_def at_expiry_def toFixed_def)
  then show ?thesis by (simp add: presented_facts)
qed

lemma expiry_states:
  "list_all (\<lambda>s. \<not> isProcessingAnswer s) (handleTimerExpiry_steps at_expiry)"
  "lives (state at_expiry) = 3" "seen at_expiry = []"
  "lives (state (handleTimerExpiry_steps at_expiry ! 3)) = 2"
  "seen (handleTimerExpiry_steps at_expiry ! 3) = []"
  "lives (state (handleTimerExpiry at_expiry)) = 2"
  "seen (handleTimerExpiry at_expiry) = [Word ''apple'']"
  by code_simp+

text \<open>
  C5. When the countdown of the first word runs out, \<^verbatim>\<open>handleTimerExpiry\<close> goes through
  its statements with the guard unset in every one of the states in between: after the
  fourth statement a life has been taken and the word is not yet appended. (An answer
  does hold the guard until the score or the lives and the seen words have their final
  values, \<open>answer_holds_guard\<close>.)
\<close>

theorem timeout_runs_with_guard_unset:
  "fire (Tick 5100) presented = Some (handleTimerExpiry at_expiry) \<and>
   list_all (\<lambda>s. \<not> isProcessingAnswer s) (handleTimerExpiry_steps at_expiry) \<and>
   lives (state at_expiry) = 3 \<and> seen at_expiry = [] \<and>
   lives (state (handleTimerExpiry_steps at_expiry ! 3)) = 2 \<and>
   seen (handleTimerExpiry_steps at_expiry ! 3) = [] \<and>
   lives (state (handleTimerExpiry at_expiry)) = 2 \<and>
   seen (handleTimerExpiry at_expiry) = [Word ''apple'']"
  using tick_at_expiry expiry_states by simp

section \<open>The snapshot\<close>

text \<open>
  C8. The object \<^verbatim>\<open>getState\<close> returns shares the array of seen words and the word object
  with the engine. Taken while the first word is presented, its \<^verbatim>\<open>seenWords\<close> reads as
  the empty array; after the engine has resolved an answer, the same reference reads as
  the array with the word. In the other direction, a push on the returned object's
  \<^verbatim>\<open>seenWords\<close> changes the engine's seen words, and an assignment to the \<^verbatim>\<open>word\<close> of its
  \<^verbatim>\<open>currentWordData\<close> changes the engine's current word.
\<close>

theorem snapshot_shares_array_and_word:
  "arrays presented (seenWords (getState presented)) = [] \<and>
   arrays (answerNew presented) (seenWords (getState presented)) = [Word ''apple''] \<and>
   seen presented = [] \<and>
   seen (caller_push (getState presented) (Word ''zebra'') presented) = [Word ''zebra''] \<and>
   word (current presented) = Word ''apple'' \<and>
   word (current (caller_set_word (getState presented) (Word ''zebra'') presented)) =
     Word ''zebra''"
  by code_simp

end
